theory Spec2Isabelle
  imports Complex_Main
begin

section \<open>Video upscaling pipeline: data model\<close>

text \<open>
  The repository holds two scripts. \<^verbatim>\<open>video_upscaling.py\<close> is the configured pipeline
  (\<^verbatim>\<open>load_config\<close>, \<^verbatim>\<open>configure_logging\<close>, \<^verbatim>\<open>get_interpolation_method\<close>,
  \<^verbatim>\<open>upscale_video\<close>, \<^verbatim>\<open>extract_and_add_audio\<close>, \<^verbatim>\<open>cleanup_temp_file\<close>, \<^verbatim>\<open>main\<close>);
  \<^verbatim>\<open>main.py\<close> is the scale-factor script (\<^verbatim>\<open>upscale_video_with_audio\<close>).

  Python exceptions are values of the type \<open>error\<close>; a function that may raise returns
  \<open>error + 'a\<close> with \<open>Inl\<close> for the exception. Every class below is a subclass of
  Python's \<^verbatim>\<open>Exception\<close>, so the handler \<^verbatim>\<open>except Exception\<close> catches each of them, and
  \<^verbatim>\<open>except MemoryError\<close> catches the first only.
\<close>

type_synonym path = string

datatype error =
    MemoryError string
  | ValueError string
  | PyException string
  | ZeroDivisionError
  | CvError
  | OSError

fun is_MemoryError :: "error \<Rightarrow> bool" where
  "is_MemoryError (MemoryError _) = True"
| "is_MemoryError _ = False"

text \<open>The four resampling kernels of \<^verbatim>\<open>cv2\<close> that the pipeline can name.\<close>

datatype interpolation = INTER_NEAREST | INTER_LINEAR | INTER_CUBIC | INTER_LANCZOS4

text \<open>
  A frame is either one decoded from a source video (identified by a number) or the
  result of a call \<^verbatim>\<open>cv2.resize(frame, dsize, interpolation=k)\<close>, kept symbolically: the
  pixels are the library's business, the call that produced them is the program's.
\<close>

datatype frame = Decoded nat | Resized frame "int \<times> int" interpolation

text \<open>
  \<^verbatim>\<open>cv2.resize\<close> with an explicit \<^verbatim>\<open>dsize\<close> and no scale arguments raises \<^verbatim>\<open>cv2.error\<close> when a
  dimension of \<^verbatim>\<open>dsize\<close> is not positive, and returns an image of that size otherwise.
\<close>

definition cv2_resize :: "frame \<Rightarrow> int \<times> int \<Rightarrow> interpolation \<Rightarrow> error + frame" where
  "cv2_resize f dsize k =
     (if 0 < fst dsize \<and> 0 < snd dsize then Inr (Resized f dsize k) else Inl CvError)"


subsection \<open>Mapping the configured kernel name\<close>

text \<open>
  \<^verbatim>\<open>get_interpolation_method\<close> (video_upscaling.py, lines 48-58): an if/elif chain on the
  name, raising \<^verbatim>\<open>ValueError\<close> in the final else.
\<close>

definition get_interpolation_method :: "string \<Rightarrow> error + interpolation" where
  "get_interpolation_method method_name =
     (if method_name = ''INTER_LINEAR'' then Inr INTER_LINEAR
      else if method_name = ''INTER_NEAREST'' then Inr INTER_NEAREST
      else if method_name = ''INTER_CUBIC'' then Inr INTER_CUBIC
      else if method_name = ''INTER_LANCZOS4'' then Inr INTER_LANCZOS4
      else Inl (ValueError (''Invalid interpolation method: '' @ method_name)))"

subsection \<open>The world the scripts run in\<close>

text \<open>
  Log records carry their level and what the message reports; the rendering of the
  f-strings is left out. \<^verbatim>\<open>logging.exception\<close> emits at level \<open>ERROR\<close>.
\<close>

datatype level = INFO | WARNING | ERROR

datatype log_msg =
    Logging_initialized
  | Low_memory_detected
  | Original_video int int real int
  | Upscaling_to "int \<times> int"
  | Processed_frames int int
  | Upscaling_completed
  | Memory_error_encountered error
  | Error_processing_video error
  | Audio_added
  | Error_adding_audio error
  | Temp_file_removed path
  | Temp_file_missing path
  | Error_during_cleanup error
  | Memory_error error
  | Failed_to_complete error

text \<open>
  What a \<^verbatim>\<open>cv2.VideoWriter\<close> has put into a file: the parameters it was constructed
  with, the frames passed to \<^verbatim>\<open>write\<close> in order, and whether \<^verbatim>\<open>release\<close> was called.
\<close>

record written_video =
  w_fourcc :: string
  w_fps :: real
  w_size :: "int \<times> int"
  w_frames :: "frame list"
  w_released :: bool

text \<open>
  The mutable part of the world: the paths that exist, the video files written by this
  run, the log records emitted so far and the number of memory samples taken.
\<close>

record state =
  files :: "path set"
  written :: "path \<rightharpoonup> written_video"
  logged :: "(level \<times> log_msg) list"
  mem_calls :: nat

text \<open>A sample of \<^verbatim>\<open>psutil.virtual_memory()\<close>: byte counts.\<close>

record meminfo =
  mem_total :: int
  mem_available :: int

text \<open>
  A video that \<^verbatim>\<open>cv2.VideoCapture\<close> can open: its header properties and the frames that
  \<^verbatim>\<open>read()\<close> returns before it first answers \<^verbatim>\<open>ret = False\<close>. The frame count of the
  header is only logged; the loop does not consult it.
\<close>

record video =
  v_width :: int
  v_height :: int
  v_fps :: real
  v_frame_count :: int
  v_frames :: "frame list"

text \<open>The configuration keys that \<^verbatim>\<open>main\<close> reads, with the types section 6 of the
  specification gives them.\<close>

record config =
  log_dir :: path
  interpolation_method :: string
  output_folder :: path
  input_video :: path
  target_resolution :: "int \<times> int"
  output_video :: path

datatype config_file = Missing | Malformed | Unreadable | Parsed config

text \<open>
  The part of the world the scripts only observe. Calls whose outcome the source does not
  decide are answers of the environment: which videos OpenCV can open, what each memory
  sample reports (the \<open>i\<close>-th call of \<^verbatim>\<open>psutil.virtual_memory\<close>), whether moviepy can
  read a clip or write the final file in a given state, and whether \<^verbatim>\<open>os.makedirs\<close>,
  opening the log file or \<^verbatim>\<open>os.remove\<close> raise.
\<close>

record env =
  config_json :: "path \<Rightarrow> config_file"
  today :: string
  makedirs_error :: "path \<Rightarrow> error option"
  open_log_error :: "path \<Rightarrow> error option"
  videos :: "path \<rightharpoonup> video"
  virtual_memory :: "nat \<Rightarrow> meminfo"
  clip_error :: "state \<Rightarrow> path \<Rightarrow> error option"
  write_videofile_error :: "state \<Rightarrow> path \<Rightarrow> error option"
  remove_error :: "path \<Rightarrow> error option"

definition log_add :: "level \<Rightarrow> log_msg \<Rightarrow> state \<Rightarrow> state" where
  "log_add lvl msg s = s\<lparr>logged := logged s @ [(lvl, msg)]\<rparr>"

text \<open>
  \<^verbatim>\<open>os.path.join\<close> of two components on POSIX: an absolute second component replaces
  the first, an empty first component or one that ends in a slash takes no separator.
\<close>

definition os_path_join :: "path \<Rightarrow> path \<Rightarrow> path" where
  "os_path_join a b =
     (if b \<noteq> [] \<and> hd b = CHR ''/'' then b
      else if a = [] \<or> last a = CHR ''/'' then a @ b
      else a @ ''/'' @ b)"


subsection \<open>Configuration and logging\<close>

text \<open>\<^verbatim>\<open>load_config\<close> (lines 13-21): the two handled failures are re-raised as plain
  \<^verbatim>\<open>Exception\<close>; any other failure of \<^verbatim>\<open>open\<close> propagates as it is.\<close>

definition load_config :: "env \<Rightarrow> path \<Rightarrow> error + config" where
  "load_config e config_file_path =
     (case config_json e config_file_path of
        Parsed c \<Rightarrow> Inr c
      | Missing \<Rightarrow> Inl (PyException (''Configuration file '' @ config_file_path @ '' not found.''))
      | Malformed \<Rightarrow> Inl (PyException ''Error parsing the JSON configuration file.'')
      | Unreadable \<Rightarrow> Inl OSError)"

text \<open>\<^verbatim>\<open>configure_logging\<close> (lines 24-38).\<close>

definition configure_logging :: "env \<Rightarrow> state \<Rightarrow> path \<Rightarrow> (error + unit) \<times> state" where
  "configure_logging e s dir =
     (case (if dir \<in> files s then None else makedirs_error e dir) of
        Some err \<Rightarrow> (Inl err, s)
      | None \<Rightarrow>
         (let s1 = s\<lparr>files := insert dir (files s)\<rparr>;
              log_file = os_path_join dir (today e @ ''_upscaling.log'')
          in case open_log_error e log_file of
               Some err \<Rightarrow> (Inl err, s1)
             | None \<Rightarrow>
                 (Inr (), log_add INFO Logging_initialized
                            (s1\<lparr>files := insert log_file (files s1)\<rparr>))))"

subsection \<open>The memory check\<close>

text \<open>
  \<^verbatim>\<open>check_memory_limit\<close> (lines 41-45) takes one sample and raises \<^verbatim>\<open>MemoryError\<close> when
  \<^verbatim>\<open>mem.available < 0.1 * mem.total\<close>. The comparison is taken over the reals; for byte
  counts below \<open>2^53\<close> the double-precision product decides the comparison with an
  integer the same way.
\<close>

definition low_memory :: "meminfo \<Rightarrow> bool" where
  "low_memory mem = (real_of_int (mem_available mem) < 0.1 * real_of_int (mem_total mem))"

definition check_memory_limit :: "env \<Rightarrow> state \<Rightarrow> (error + unit) \<times> state" where
  "check_memory_limit e s =
     (let mem = virtual_memory e (mem_calls s);
          s1 = s\<lparr>mem_calls := Suc (mem_calls s)\<rparr>
      in if low_memory mem
         then (Inl (MemoryError ''System is running out of memory. Aborting process.''),
               log_add WARNING Low_memory_detected s1)
         else (Inr (), s1))"

subsection \<open>Reading and writing video with OpenCV\<close>

text \<open>
  The model records what the scripts ask of OpenCV: constructing a \<^verbatim>\<open>cv2.VideoWriter\<close>
  creates the file (replacing an older one of that name), \<^verbatim>\<open>write\<close> appends a frame to
  it, \<^verbatim>\<open>release\<close> closes it. None of the three raises; a writer that OpenCV could not
  open would show only through \<^verbatim>\<open>isOpened\<close>, which neither script consults.
\<close>

definition VideoWriter_open :: "path \<Rightarrow> string \<Rightarrow> real \<Rightarrow> int \<times> int \<Rightarrow> state \<Rightarrow> state" where
  "VideoWriter_open p fourcc fps frame_sz s =
     s\<lparr>files := insert p (files s),
       written := (written s)(p \<mapsto>
          \<lparr>w_fourcc = fourcc, w_fps = fps, w_size = frame_sz, w_frames = [], w_released = False\<rparr>)\<rparr>"

definition VideoWriter_write :: "path \<Rightarrow> frame \<Rightarrow> state \<Rightarrow> state" where
  "VideoWriter_write p f s =
     (case written s p of
        None \<Rightarrow> s
      | Some v \<Rightarrow> s\<lparr>written := (written s)(p \<mapsto> v\<lparr>w_frames := w_frames v @ [f]\<rparr>)\<rparr>)"

definition VideoWriter_release :: "path \<Rightarrow> state \<Rightarrow> state" where
  "VideoWriter_release p s =
     (case written s p of
        None \<Rightarrow> s
      | Some v \<Rightarrow> s\<lparr>written := (written s)(p \<mapsto> v\<lparr>w_released := True\<rparr>)\<rparr>)"

subsection \<open>The frame-resample stage\<close>

text \<open>
  The \<^verbatim>\<open>while True\<close> loop of \<^verbatim>\<open>upscale_video\<close> (lines 78-91). The capture's position is the
  list of frames still to be read: the empty list is \<^verbatim>\<open>ret = False\<close>, which breaks the
  loop. \<^verbatim>\<open>frame_counter\<close> is the number of frames written before this iteration.
  \<^verbatim>\<open>frame_counter % chunk_size\<close> raises \<^verbatim>\<open>ZeroDivisionError\<close> for a zero \<^verbatim>\<open>chunk_size\<close>;
  otherwise it is the floored remainder, as \<open>mod\<close> on \<open>int\<close> is. \<^verbatim>\<open>gc.collect()\<close> has no
  effect on the modelled state.
\<close>

fun upscale_video_loop ::
  "env \<Rightarrow> path \<Rightarrow> int \<times> int \<Rightarrow> interpolation \<Rightarrow> int \<Rightarrow> int \<Rightarrow> frame list \<Rightarrow> int \<Rightarrow> state
     \<Rightarrow> (error + unit) \<times> state" where
  "upscale_video_loop e out res k chunk_size total_frames [] frame_counter s = (Inr (), s)"
| "upscale_video_loop e out res k chunk_size total_frames (frame # rest) frame_counter s =
     (case cv2_resize frame res k of
        Inl err \<Rightarrow> (Inl err, s)
      | Inr upscaled_frame \<Rightarrow>
          (let s1 = VideoWriter_write out upscaled_frame s;
               frame_counter1 = frame_counter + 1
           in if chunk_size = 0 then (Inl ZeroDivisionError, s1)
              else if frame_counter1 mod chunk_size = 0
              then (case check_memory_limit e
                           (log_add INFO (Processed_frames frame_counter1 total_frames) s1) of
                      (Inl err, s2) \<Rightarrow> (Inl err, s2)
                    | (Inr u, s2) \<Rightarrow>
                        upscale_video_loop e out res k chunk_size total_frames rest frame_counter1 s2)
              else upscale_video_loop e out res k chunk_size total_frames rest frame_counter1 s1))"

text \<open>The body of the \<^verbatim>\<open>try\<close> block of \<^verbatim>\<open>upscale_video\<close> (lines 63-95).\<close>

definition upscale_video_body ::
  "env \<Rightarrow> state \<Rightarrow> path \<Rightarrow> path \<Rightarrow> int \<times> int \<Rightarrow> interpolation \<Rightarrow> int \<Rightarrow> (error + unit) \<times> state" where
  "upscale_video_body e s input_path temp_output_path res k chunk_size =
     (case videos e input_path of
        None \<Rightarrow> (Inl (PyException (''Unable to open video file: '' @ input_path)), s)
      | Some v \<Rightarrow>
          (let width = v_width v; height = v_height v; fps = v_fps v;
               total_frames = v_frame_count v;
               s1 = log_add INFO (Original_video width height fps total_frames) s;
               s2 = VideoWriter_open temp_output_path ''mp4v'' fps res s1;
               s3 = log_add INFO (Upscaling_to res) s2
           in case upscale_video_loop e temp_output_path res k chunk_size total_frames
                     (v_frames v) 0 s3 of
                (Inl err, s4) \<Rightarrow> (Inl err, s4)
              | (Inr u, s4) \<Rightarrow>
                  (Inr (), log_add INFO Upscaling_completed
                             (VideoWriter_release temp_output_path s4))))"

text \<open>The two handlers (lines 97-102) log the exception and raise it again.\<close>

definition upscale_video ::
  "env \<Rightarrow> state \<Rightarrow> path \<Rightarrow> path \<Rightarrow> int \<times> int \<Rightarrow> interpolation \<Rightarrow> int \<Rightarrow> (error + unit) \<times> state" where
  "upscale_video e s input_path temp_output_path res k chunk_size =
     (case upscale_video_body e s input_path temp_output_path res k chunk_size of
        (Inl err, s1) \<Rightarrow>
          (Inl err, log_add ERROR (if is_MemoryError err then Memory_error_encountered err
                                   else Error_processing_video err) s1)
      | (Inr u, s1) \<Rightarrow> (Inr (), s1))"

subsection \<open>Audio reattachment and cleanup\<close>

text \<open>
  \<^verbatim>\<open>extract_and_add_audio\<close> (lines 105-116): both clips are opened with moviepy, the final
  file is written, and any exception is logged and raised again.
\<close>

definition extract_and_add_audio_body ::
  "env \<Rightarrow> state \<Rightarrow> path \<Rightarrow> path \<Rightarrow> path \<Rightarrow> (error + unit) \<times> state" where
  "extract_and_add_audio_body e s input_path temp_upscaled_video final_output_video =
     (case clip_error e s input_path of
        Some err \<Rightarrow> (Inl err, s)
      | None \<Rightarrow>
          (case clip_error e s temp_upscaled_video of
             Some err \<Rightarrow> (Inl err, s)
           | None \<Rightarrow>
               (case write_videofile_error e s final_output_video of
                  Some err \<Rightarrow> (Inl err, s)
                | None \<Rightarrow>
                    (Inr (), log_add INFO Audio_added
                               (s\<lparr>files := insert final_output_video (files s)\<rparr>)))))"

definition extract_and_add_audio ::
  "env \<Rightarrow> state \<Rightarrow> path \<Rightarrow> path \<Rightarrow> path \<Rightarrow> (error + unit) \<times> state" where
  "extract_and_add_audio e s input_path temp_upscaled_video final_output_video =
     (case extract_and_add_audio_body e s input_path temp_upscaled_video final_output_video of
        (Inl err, s1) \<Rightarrow> (Inl err, log_add ERROR (Error_adding_audio err) s1)
      | (Inr u, s1) \<Rightarrow> (Inr (), s1))"

text \<open>
  \<^verbatim>\<open>cleanup_temp_file\<close> (lines 119-127). The body of the \<^verbatim>\<open>try\<close> block tests
  \<^verbatim>\<open>os.path.exists\<close> and calls \<^verbatim>\<open>os.remove\<close>, which may raise; the handler logs the
  exception and does not raise it again.
\<close>

definition cleanup_temp_file_body :: "env \<Rightarrow> state \<Rightarrow> path \<Rightarrow> (error + unit) \<times> state" where
  "cleanup_temp_file_body e s temp_file_path =
     (if temp_file_path \<in> files s
      then (case remove_error e temp_file_path of
              Some err \<Rightarrow> (Inl err, s)
            | None \<Rightarrow>
                (Inr (), log_add INFO (Temp_file_removed temp_file_path)
                           (s\<lparr>files := files s - {temp_file_path},
                              written := (written s)(temp_file_path := None)\<rparr>)))
      else (Inr (), log_add WARNING (Temp_file_missing temp_file_path) s))"

definition cleanup_temp_file :: "env \<Rightarrow> state \<Rightarrow> path \<Rightarrow> (error + unit) \<times> state" where
  "cleanup_temp_file e s temp_file_path =
     (case cleanup_temp_file_body e s temp_file_path of
        (Inl err, s1) \<Rightarrow> (Inr (), log_add ERROR (Error_during_cleanup err) s1)
      | (Inr u, s1) \<Rightarrow> (Inr (), s1))"

subsection \<open>The pipeline\<close>

text \<open>
  \<^verbatim>\<open>main\<close> (lines 130-150) returns the exit code of the process with the final state:
  \<open>0\<close> when the \<^verbatim>\<open>try\<close> block runs to its end, \<open>1\<close> from \<^verbatim>\<open>sys.exit(1)\<close> in either
  handler. \<^verbatim>\<open>upscale_video\<close> is called without \<^verbatim>\<open>chunk_size\<close>, so with its default 100.
\<close>

definition main_handler :: "error \<Rightarrow> state \<Rightarrow> int \<times> state" where
  "main_handler err s =
     (if is_MemoryError err then (1, log_add ERROR (Memory_error err) s)
      else (1, log_add ERROR (Failed_to_complete err) s))"

definition temp_path :: "config \<Rightarrow> path" where
  "temp_path cfg = os_path_join (output_folder cfg) ''temp_upscaled_video.mp4''"

definition main :: "env \<Rightarrow> state \<Rightarrow> int \<times> state" where
  "main e s =
     (case load_config e ''config.json'' of
        Inl err \<Rightarrow> main_handler err s
      | Inr cfg \<Rightarrow>
     (case configure_logging e s (log_dir cfg) of
        (Inl err, s1) \<Rightarrow> main_handler err s1
      | (Inr u1, s1) \<Rightarrow>
     (case get_interpolation_method (interpolation_method cfg) of
        Inl err \<Rightarrow> main_handler err s1
      | Inr k \<Rightarrow>
     (let temp_output_path = temp_path cfg in
      case upscale_video e s1 (input_video cfg) temp_output_path (target_resolution cfg) k 100 of
        (Inl err, s2) \<Rightarrow> main_handler err s2
      | (Inr u2, s2) \<Rightarrow>
     (case extract_and_add_audio e s2 (input_video cfg) temp_output_path (output_video cfg) of
        (Inl err, s3) \<Rightarrow> main_handler err s3
      | (Inr u3, s3) \<Rightarrow>
     (case cleanup_temp_file e s3 temp_output_path of
        (Inl err, s4) \<Rightarrow> main_handler err s4
      | (Inr u4, s4) \<Rightarrow> (0, s4)))))))"

subsection \<open>The scale-factor script\<close>

text \<open>
  \<^verbatim>\<open>upscale_video_with_audio\<close> (main.py, lines 4-42). The capture is not tested with
  \<^verbatim>\<open>isOpened\<close>: a capture that did not open answers \<open>0\<close> to every \<^verbatim>\<open>get\<close> and
  \<^verbatim>\<open>ret = False\<close> to the first \<^verbatim>\<open>read\<close>. The scale factor is a Python number, taken as a
  real; products are exact, the rounding of doubles is not modelled. There is no
  \<^verbatim>\<open>try\<close>: every exception propagates. The final \<^verbatim>\<open>print\<close> is left out.
\<close>

definition closed_capture :: video where
  "closed_capture = \<lparr>v_width = 0, v_height = 0, v_fps = 0, v_frame_count = 0, v_frames = []\<rparr>"

definition cv2_VideoCapture :: "env \<Rightarrow> path \<Rightarrow> video" where
  "cv2_VideoCapture e p = (case videos e p of None \<Rightarrow> closed_capture | Some v \<Rightarrow> v)"




subsection \<open>Concrete worlds\<close>

text \<open>
  Small worlds on which the functions above are run: a configuration file with the six
  keys, a three-frame source video of 3x3 pixels at 30 frames per second, ample memory,
  and libraries that never fail. The variants change one answer of the environment each.
\<close>

definition demo_config :: config where
  "demo_config =
     \<lparr>log_dir = ''logs'', interpolation_method = ''INTER_CUBIC'', output_folder = ''out'',
      input_video = ''in.mp4'', target_resolution = (6, 6), output_video = ''final.mp4''\<rparr>"

definition demo_video :: video where
  "demo_video =
     \<lparr>v_width = 3, v_height = 3, v_fps = 30, v_frame_count = 3,
      v_frames = [Decoded 0, Decoded 1, Decoded 2]\<rparr>"

definition ample_memory :: meminfo where
  "ample_memory = \<lparr>mem_total = 1000, mem_available = 500\<rparr>"

definition scarce_memory :: meminfo where
  "scarce_memory = \<lparr>mem_total = 1000, mem_available = 99\<rparr>"

definition demo_env :: env where
  "demo_env =
     \<lparr>config_json = (\<lambda>p. if p = ''config.json'' then Parsed demo_config else Missing),
      today = ''2024-01-01'',
      makedirs_error = (\<lambda>p. None),
      open_log_error = (\<lambda>p. None),
      videos = [''in.mp4'' \<mapsto> demo_video],
      virtual_memory = (\<lambda>i. ample_memory),
      clip_error = (\<lambda>s p. None),
      write_videofile_error = (\<lambda>s p. None),
      remove_error = (\<lambda>p. None)\<rparr>"

definition demo_state :: state where
  "demo_state = \<lparr>files = {''config.json'', ''in.mp4''}, written = Map.empty, logged = [], mem_calls = 0\<rparr>"

text \<open>Every memory sample reports 99 of 1000 bytes available.\<close>

definition scarce_env :: env where
  "scarce_env = demo_env\<lparr>virtual_memory := (\<lambda>i. scarce_memory)\<rparr>"

text \<open>A source of 101 frames, one more than the default \<^verbatim>\<open>chunk_size\<close>.\<close>

definition long_video :: video where
  "long_video =
     \<lparr>v_width = 3, v_height = 3, v_fps = 30, v_frame_count = 101,
      v_frames = map Decoded [0..<101]\<rparr>"

definition long_scarce_env :: env where
  "long_scarce_env = scarce_env\<lparr>videos := [''in.mp4'' \<mapsto> long_video]\<rparr>"

text \<open>\<^verbatim>\<open>os.remove\<close> raises for every path (a file still held open, a read-only folder).\<close>

definition locked_env :: env where
  "locked_env = demo_env\<lparr>remove_error := (\<lambda>p. Some OSError)\<rparr>"

text \<open>No path can be opened, by OpenCV or by moviepy.\<close>

definition blind_env :: env where
  "blind_env = demo_env\<lparr>videos := Map.empty, clip_error := (\<lambda>s p. Some OSError)\<rparr>"

section \<open>Properties of the stages\<close>

subsection \<open>State bookkeeping\<close>

lemma log_add_simps [simp]:
  "files (log_add l m s) = files s"
  "written (log_add l m s) = written s"
  "mem_calls (log_add l m s) = mem_calls s"
  "logged (log_add l m s) = logged s @ [(l, m)]"
  by (simp_all add: log_add_def)

lemma VideoWriter_write_simps [simp]:
  "files (VideoWriter_write p f s) = files s"
  "mem_calls (VideoWriter_write p f s) = mem_calls s"
  "logged (VideoWriter_write p f s) = logged s"
  by (simp_all add: VideoWriter_write_def split: option.splits)

lemma VideoWriter_write_written:
  "written s p = Some w \<Longrightarrow>
   written (VideoWriter_write p f s) = (written s)(p \<mapsto> w\<lparr>w_frames := w_frames w @ [f]\<rparr>)"
  by (simp add: VideoWriter_write_def)

lemma check_memory_limit_cases:
  "check_memory_limit e s =
     (if low_memory (virtual_memory e (mem_calls s))
      then (Inl (MemoryError ''System is running out of memory. Aborting process.''),
            log_add WARNING Low_memory_detected (s\<lparr>mem_calls := Suc (mem_calls s)\<rparr>))
      else (Inr (), s\<lparr>mem_calls := Suc (mem_calls s)\<rparr>))"
  by (simp add: check_memory_limit_def Let_def)

lemma div_step_dvd:
  fixes n a :: int
  assumes "0 < a" "0 \<le> n" "(n + 1) mod a = 0"
  shows "(n + 1) div a = n div a + 1"
proof -
  from assms obtain q where q: "n + 1 = a * q" by (auto simp: mod_eq_0_iff_dvd)
  have "n = a * (q - 1) + (a - 1)" using q by (simp add: algebra_simps)
  moreover have "0 \<le> a - 1" "a - 1 < a" using assms by auto
  ultimately have "n div a = q - 1"
    by (metis div_mult_self2 div_pos_pos_trivial add.commute add_0 assms(1) less_irrefl mult.commute)
  thus ?thesis using q assms by simp
qed

lemma div_step_ndvd:
  fixes n a :: int
  assumes "0 < a" "0 \<le> n" "(n + 1) mod a \<noteq> 0"
  shows "(n + 1) div a = n div a"
proof -
  have lt: "n mod a < a" and ge: "0 \<le> n mod a" using assms by simp_all
  have "n mod a + 1 \<noteq> a"
  proof
    assume "n mod a + 1 = a"
    then have "(n mod a + 1) mod a = 0" by simp
    then have "(n + 1) mod a = 0" by (simp add: mod_add_left_eq)
    with assms show False by simp
  qed
  with lt have small: "n mod a + 1 < a" by simp
  have eq: "n + 1 = (n mod a + 1) + a * (n div a)" by simp
  have "((n mod a + 1) + a * (n div a)) div a = n div a + (n mod a + 1) div a"
    using assms(1) by (subst div_mult_self2) simp_all
  moreover have "(n mod a + 1) div a = 0" using small ge by (simp add: div_pos_pos_trivial)
  ultimately have "((n mod a + 1) + a * (n div a)) div a = n div a" by simp
  with eq show ?thesis by metis
qed

lemma loop_Nil: "upscale_video_loop e out res k c tot [] n s = (Inr (), s)"
  by simp

lemma loop_Cons:
  "upscale_video_loop e out res k c tot (f # fs) n s =
     (if \<not> (0 < fst res \<and> 0 < snd res) then (Inl CvError, s)
      else if c = 0 then (Inl ZeroDivisionError, VideoWriter_write out (Resized f res k) s)
      else if (n + 1) mod c \<noteq> 0
        then upscale_video_loop e out res k c tot fs (n + 1) (VideoWriter_write out (Resized f res k) s)
      else if low_memory (virtual_memory e (mem_calls s))
        then (Inl (MemoryError ''System is running out of memory. Aborting process.''),
              log_add WARNING Low_memory_detected
                ((log_add INFO (Processed_frames (n + 1) tot)
                    (VideoWriter_write out (Resized f res k) s))\<lparr>mem_calls := Suc (mem_calls s)\<rparr>))
      else upscale_video_loop e out res k c tot fs (n + 1)
             ((log_add INFO (Processed_frames (n + 1) tot)
                 (VideoWriter_write out (Resized f res k) s))\<lparr>mem_calls := Suc (mem_calls s)\<rparr>))"
  by (simp add: cv2_resize_def Let_def check_memory_limit_cases)

declare upscale_video_loop.simps(2) [simp del]

lemma loop_mem_calls_mono:
  "upscale_video_loop e out res k c tot fs n s = (r, s') \<Longrightarrow> mem_calls s \<le> mem_calls s'"
proof (induction fs arbitrary: n s)
  case Nil
  then show ?case by simp
next
  case (Cons f fs)
  from Cons.prems show ?case
    unfolding loop_Cons
    by (auto split: if_splits dest!: Cons.IH)
qed

lemma loop_low_sample:
  assumes "upscale_video_loop e out res k c tot fs n s = (r, s')"
      and "mem_calls s \<le> j" and "j < mem_calls s'" and "low_memory (virtual_memory e j)"
  shows "r = Inl (MemoryError ''System is running out of memory. Aborting process.'')
         \<and> mem_calls s' = Suc j"
  using assms
proof (induction fs arbitrary: n s)
  case Nil
  then show ?case by simp
next
  case (Cons f fs)
  let ?s1 = "VideoWriter_write out (Resized f res k) s"
  let ?s2 = "(log_add INFO (Processed_frames (n + 1) tot) ?s1)\<lparr>mem_calls := Suc (mem_calls s)\<rparr>"
  consider (bad) "\<not> (0 < fst res \<and> 0 < snd res)"
    | (zero) "0 < fst res \<and> 0 < snd res" "c = 0"
    | (skip) "0 < fst res \<and> 0 < snd res" "c \<noteq> 0" "(n + 1) mod c \<noteq> 0"
    | (low) "0 < fst res \<and> 0 < snd res" "c \<noteq> 0" "(n + 1) mod c = 0"
            "low_memory (virtual_memory e (mem_calls s))"
    | (pass) "0 < fst res \<and> 0 < snd res" "c \<noteq> 0" "(n + 1) mod c = 0"
            "\<not> low_memory (virtual_memory e (mem_calls s))"
    by argo
  then show ?case
  proof cases
    case bad
    with Cons.prems show ?thesis by (simp add: loop_Cons)
  next
    case zero
    with Cons.prems show ?thesis by (auto simp add: loop_Cons)
  next
    case skip
    with Cons.prems have run: "upscale_video_loop e out res k c tot fs (n + 1) ?s1 = (r, s')"
      by (simp add: loop_Cons)
    show ?thesis using Cons.IH[OF run] Cons.prems(2-4) by simp
  next
    case low
    with Cons.prems show ?thesis by (auto simp add: loop_Cons)
  next
    case pass
    with Cons.prems have run: "upscale_video_loop e out res k c tot fs (n + 1) ?s2 = (r, s')"
      by (simp add: loop_Cons)
    have "j \<noteq> mem_calls s" using pass(4) Cons.prems(4) by auto
    with Cons.prems(2) have "mem_calls ?s2 \<le> j" by simp
    from Cons.IH[OF run this Cons.prems(3,4)] show ?thesis .
  qed
qed



lemma loop_zero_chunk:
  "upscale_video_loop e out res k 0 tot fs n s = (r, s') \<Longrightarrow> mem_calls s' = mem_calls s"
  by (cases fs) (auto simp add: loop_Cons split: if_splits)

lemma loop_frames_count:
  assumes "upscale_video_loop e out res k c tot fs n s = (r, s')"
      and "written s out = Some w" and "0 \<le> n" and "c \<noteq> 0"
  shows "\<exists>m\<le>length fs.
           written s' out = Some (w\<lparr>w_frames := w_frames w @ map (\<lambda>f. Resized f res k) (take m fs)\<rparr>)
         \<and> int (mem_calls s') = int (mem_calls s) + (n + int m) div \<bar>c\<bar> - n div \<bar>c\<bar>
         \<and> ((\<exists>msg. r = Inl (MemoryError msg)) \<longrightarrow> \<bar>c\<bar> dvd (n + int m))"
  using assms
proof (induction fs arbitrary: n s w)
  case Nil
  then show ?case by auto
next
  case (Cons f fs)
  let ?R = "\<lambda>f. Resized f res k"
  let ?w1 = "w\<lparr>w_frames := w_frames w @ [?R f]\<rparr>"
  let ?s1 = "VideoWriter_write out (?R f) s"
  let ?s2 = "(log_add INFO (Processed_frames (n + 1) tot) ?s1)\<lparr>mem_calls := Suc (mem_calls s)\<rparr>"
  have w1: "written ?s1 out = Some ?w1" "written ?s2 out = Some ?w1"
    using Cons.prems(2) by (simp_all add: VideoWriter_write_written)
  have a: "0 < \<bar>c\<bar>" and n1: "0 \<le> n + 1" using Cons.prems(3,4) by simp_all
  have modc: "((n + 1) mod c = 0) = ((n + 1) mod \<bar>c\<bar> = 0)" by (simp add: mod_eq_0_iff_dvd)
  consider (bad) "\<not> (0 < fst res \<and> 0 < snd res)"
    | (skip) "0 < fst res \<and> 0 < snd res" "(n + 1) mod c \<noteq> 0"
    | (low) "0 < fst res \<and> 0 < snd res" "(n + 1) mod c = 0"
            "low_memory (virtual_memory e (mem_calls s))"
    | (pass) "0 < fst res \<and> 0 < snd res" "(n + 1) mod c = 0"
            "\<not> low_memory (virtual_memory e (mem_calls s))"
    by argo
  then show ?case
  proof cases
    case bad
    with Cons.prems have "r = Inl CvError" "s' = s" by (simp_all add: loop_Cons)
    with Cons.prems(2) show ?thesis by (intro exI[of _ 0]) simp
  next
    case skip
    with Cons.prems have run: "upscale_video_loop e out res k c tot fs (n + 1) ?s1 = (r, s')"
      by (simp add: loop_Cons)
    from Cons.IH[OF run w1(1) n1 Cons.prems(4)] obtain m where m: "m \<le> length fs"
      "written s' out = Some (?w1\<lparr>w_frames := w_frames ?w1 @ map ?R (take m fs)\<rparr>)"
      "int (mem_calls s') = int (mem_calls ?s1) + (n + 1 + int m) div \<bar>c\<bar> - (n + 1) div \<bar>c\<bar>"
      "(\<exists>msg. r = Inl (MemoryError msg)) \<longrightarrow> \<bar>c\<bar> dvd (n + 1 + int m)"
      by blast
    have d: "(n + 1) div \<bar>c\<bar> = n div \<bar>c\<bar>"
      using div_step_ndvd[OF a Cons.prems(3)] skip(2) modc by simp
    show ?thesis
    proof (intro exI[of _ "Suc m"] conjI)
      show "Suc m \<le> length (f # fs)" using m(1) by simp
      show "written s' out = Some (w\<lparr>w_frames := w_frames w @ map ?R (take (Suc m) (f # fs))\<rparr>)"
        using m(2) by simp
      show "int (mem_calls s') = int (mem_calls s) + (n + int (Suc m)) div \<bar>c\<bar> - n div \<bar>c\<bar>"
        using m(3) d by (simp add: add.assoc add.commute add.left_commute)
      show "(\<exists>msg. r = Inl (MemoryError msg)) \<longrightarrow> \<bar>c\<bar> dvd n + int (Suc m)"
        using m(4) by (simp add: add.assoc add.commute add.left_commute)
    qed
  next
    case low
    with Cons.prems have r: "r = Inl (MemoryError ''System is running out of memory. Aborting process.'')"
      and s': "s' = log_add WARNING Low_memory_detected ?s2"
      by (simp_all add: loop_Cons)
    have d: "(n + 1) div \<bar>c\<bar> = n div \<bar>c\<bar> + 1"
      using div_step_dvd[OF a Cons.prems(3)] low(2) modc by simp
    show ?thesis
    proof (intro exI[of _ "Suc 0"] conjI)
      show "Suc 0 \<le> length (f # fs)" by simp
      show "written s' out = Some (w\<lparr>w_frames := w_frames w @ map ?R (take (Suc 0) (f # fs))\<rparr>)"
        using s' w1(2) by simp
      show "int (mem_calls s') = int (mem_calls s) + (n + int (Suc 0)) div \<bar>c\<bar> - n div \<bar>c\<bar>"
        using s' d by simp
      show "(\<exists>msg. r = Inl (MemoryError msg)) \<longrightarrow> \<bar>c\<bar> dvd n + int (Suc 0)"
        using low(2) modc by (simp add: mod_eq_0_iff_dvd)
    qed
  next
    case pass
    with Cons.prems have run: "upscale_video_loop e out res k c tot fs (n + 1) ?s2 = (r, s')"
      by (simp add: loop_Cons)
    from Cons.IH[OF run w1(2) n1 Cons.prems(4)] obtain m where m: "m \<le> length fs"
      "written s' out = Some (?w1\<lparr>w_frames := w_frames ?w1 @ map ?R (take m fs)\<rparr>)"
      "int (mem_calls s') = int (mem_calls ?s2) + (n + 1 + int m) div \<bar>c\<bar> - (n + 1) div \<bar>c\<bar>"
      "(\<exists>msg. r = Inl (MemoryError msg)) \<longrightarrow> \<bar>c\<bar> dvd (n + 1 + int m)"
      by blast
    have d: "(n + 1) div \<bar>c\<bar> = n div \<bar>c\<bar> + 1"
      using div_step_dvd[OF a Cons.prems(3)] pass(2) modc by simp
    show ?thesis
    proof (intro exI[of _ "Suc m"] conjI)
      show "Suc m \<le> length (f # fs)" using m(1) by simp
      show "written s' out = Some (w\<lparr>w_frames := w_frames w @ map ?R (take (Suc m) (f # fs))\<rparr>)"
        using m(2) by simp
      show "int (mem_calls s') = int (mem_calls s) + (n + int (Suc m)) div \<bar>c\<bar> - n div \<bar>c\<bar>"
        using m(3) d by (simp add: add.assoc add.commute add.left_commute)
      show "(\<exists>msg. r = Inl (MemoryError msg)) \<longrightarrow> \<bar>c\<bar> dvd n + int (Suc m)"
        using m(4) by (simp add: add.assoc add.commute add.left_commute)
    qed
  qed
qed


lemma VideoWriter_open_simps [simp]:
  "files (VideoWriter_open p fourcc fps sz s) = insert p (files s)"
  "mem_calls (VideoWriter_open p fourcc fps sz s) = mem_calls s"
  "logged (VideoWriter_open p fourcc fps sz s) = logged s"
  "written (VideoWriter_open p fourcc fps sz s) =
     (written s)(p \<mapsto> \<lparr>w_fourcc = fourcc, w_fps = fps, w_size = sz, w_frames = [], w_released = False\<rparr>)"
  by (simp_all add: VideoWriter_open_def)

lemma VideoWriter_release_simps [simp]:
  "files (VideoWriter_release p s) = files s"
  "mem_calls (VideoWriter_release p s) = mem_calls s"
  "logged (VideoWriter_release p s) = logged s"
  by (simp_all add: VideoWriter_release_def split: option.splits)





lemma loop_short:
  assumes "upscale_video_loop e out res k c tot fs n s = (r, s')"
      and "0 \<le> n" and "n + int (length fs) < c"
  shows "mem_calls s' = mem_calls s \<and> (\<forall>msg. r \<noteq> Inl (MemoryError msg))"
  using assms
proof (induction fs arbitrary: n s)
  case Nil
  then show ?case by auto
next
  case (Cons f fs)
  let ?s1 = "VideoWriter_write out (Resized f res k) s"
  have "0 < n + 1" "n + 1 < c" using Cons.prems(2,3) by simp_all
  then have nz: "(n + 1) mod c \<noteq> 0" and c: "c \<noteq> 0" by simp_all
  show ?case
  proof (cases "0 < fst res \<and> 0 < snd res")
    case False
    with Cons.prems(1) show ?thesis by (auto simp add: loop_Cons)
  next
    case True
    with nz c Cons.prems(1)
    have run: "upscale_video_loop e out res k c tot fs (n + 1) ?s1 = (r, s')"
      by (simp add: loop_Cons)
    have "0 \<le> n + 1" "n + 1 + int (length fs) < c" using Cons.prems(2,3) by simp_all
    from Cons.IH[OF run this] show ?thesis by simp
  qed
qed


lemma upscale_video_None:
  "videos e inp = None \<Longrightarrow>
   upscale_video e s inp out res k c =
     (Inl (PyException (''Unable to open video file: '' @ inp)),
      log_add ERROR (Error_processing_video (PyException (''Unable to open video file: '' @ inp))) s)"
  by (simp add: upscale_video_def upscale_video_body_def)

lemma upscale_video_Some:
  "videos e inp = Some v \<Longrightarrow>
   upscale_video e s inp out res k c =
     (case upscale_video_loop e out res k c (v_frame_count v) (v_frames v) 0
             (log_add INFO (Upscaling_to res)
               (VideoWriter_open out ''mp4v'' (v_fps v) res
                 (log_add INFO
                   (Original_video (v_width v) (v_height v) (v_fps v) (v_frame_count v)) s))) of
        (Inl err, s4) \<Rightarrow>
          (Inl err, log_add ERROR (if is_MemoryError err then Memory_error_encountered err
                                   else Error_processing_video err) s4)
      | (Inr u, s4) \<Rightarrow>
          (Inr (), log_add INFO Upscaling_completed (VideoWriter_release out s4)))"
  by (simp add: upscale_video_def upscale_video_body_def Let_def split: prod.splits sum.splits)

subsection \<open>The loop of the scale-factor script\<close>


subsection \<open>Truncation and the scaled size\<close>






subsection \<open>Files touched by the resample stage\<close>


subsection \<open>Evaluating the concrete worlds\<close>

lemmas world_defs =
  demo_config_def demo_video_def ample_memory_def scarce_memory_def demo_env_def demo_state_def
  scarce_env_def long_video_def long_scarce_env_def locked_env_def blind_env_def

lemmas stage_defs =
  upscale_video_def upscale_video_body_def extract_and_add_audio_def extract_and_add_audio_body_def
  cleanup_temp_file_def cleanup_temp_file_body_def main_def main_handler_def temp_path_def
  load_config_def configure_logging_def get_interpolation_method_def os_path_join_def
  loop_Cons low_memory_def log_add_def VideoWriter_open_def VideoWriter_write_def
  VideoWriter_release_def Let_def

section \<open>The claims\<close>

subsection \<open>Kernel names\<close>

text \<open>
  Claim C3. For every interpolation method name, the mapping from name to resampling
  kernel succeeds exactly when the name is one of \<^verbatim>\<open>INTER_LINEAR\<close>, \<^verbatim>\<open>INTER_NEAREST\<close>,
  \<^verbatim>\<open>INTER_CUBIC\<close>, \<^verbatim>\<open>INTER_LANCZOS4\<close>, returning the corresponding kernel constant, and
  raises \<^verbatim>\<open>ValueError\<close> for any other string.
\<close>

theorem get_interpolation_method_recognised:
  "((\<exists>k. get_interpolation_method name = Inr k) =
      (name \<in> {''INTER_LINEAR'', ''INTER_NEAREST'', ''INTER_CUBIC'', ''INTER_LANCZOS4''}))
   \<and> ((get_interpolation_method name = Inl (ValueError (''Invalid interpolation method: '' @ name))) =
      (name \<notin> {''INTER_LINEAR'', ''INTER_NEAREST'', ''INTER_CUBIC'', ''INTER_LANCZOS4''}))
   \<and> get_interpolation_method ''INTER_LINEAR'' = Inr INTER_LINEAR
   \<and> get_interpolation_method ''INTER_NEAREST'' = Inr INTER_NEAREST
   \<and> get_interpolation_method ''INTER_CUBIC'' = Inr INTER_CUBIC
   \<and> get_interpolation_method ''INTER_LANCZOS4'' = Inr INTER_LANCZOS4"
  by (simp add: get_interpolation_method_def)

subsection \<open>The periodic memory check\<close>

text \<open>
  Claim C2. If a periodic memory check of the resample stage (sample number \<open>j\<close>, taken
  during the stage) reports available memory below 10% of the total, the stage raises
  \<^verbatim>\<open>MemoryError\<close>, that sample is the last one taken, and the intermediate file holds
  exactly the frames written up to that check: the first \<open>|chunk_size|\<close> times the number
  of checks made, each resized to the target resolution, and none after them. The checks
  fall after every \<open>chunk_size\<close>-th frame.
\<close>

theorem memory_abort_stops_writing:
  assumes "upscale_video e s inp out res k c = (r, s')"
      and "mem_calls s \<le> j" and "j < mem_calls s'"
      and "low_memory (virtual_memory e j)"
  shows "r = Inl (MemoryError ''System is running out of memory. Aborting process.'')
       \<and> mem_calls s' = Suc j
       \<and> (\<exists>v. videos e inp = Some v
             \<and> nat \<bar>c\<bar> * (Suc j - mem_calls s) \<le> length (v_frames v)
             \<and> written s' out =
                 Some \<lparr>w_fourcc = ''mp4v'', w_fps = v_fps v, w_size = res,
                       w_frames = map (\<lambda>f. Resized f res k)
                                    (take (nat \<bar>c\<bar> * (Suc j - mem_calls s)) (v_frames v)),
                       w_released = False\<rparr>)"
proof -
  let ?msg = "''System is running out of memory. Aborting process.''"
  have opened: "videos e inp \<noteq> None"
  proof
    assume "videos e inp = None"
    from assms(1) upscale_video_None[OF this] have "mem_calls s' = mem_calls s" by auto
    with assms(2,3) show False by simp
  qed
  then obtain v where v: "videos e inp = Some v" by blast
  define s3 where "s3 = log_add INFO (Upscaling_to res)
               (VideoWriter_open out ''mp4v'' (v_fps v) res
                 (log_add INFO
                   (Original_video (v_width v) (v_height v) (v_fps v) (v_frame_count v)) s))"
  define w0 where "w0 = \<lparr>w_fourcc = ''mp4v'', w_fps = v_fps v, w_size = res,
                        w_frames = [], w_released = False\<rparr>"
  obtain r0 s4 where run: "upscale_video_loop e out res k c (v_frame_count v) (v_frames v) 0 s3 = (r0, s4)"
    by fastforce
  have m3: "mem_calls s3 = mem_calls s" and w3: "written s3 out = Some w0"
    by (simp_all add: s3_def w0_def)
  from assms(1) run have rs: "r = r0" "mem_calls s' = mem_calls s4"
    by (auto simp add: upscale_video_Some[OF v] s3_def[symmetric] split: sum.splits)
  from loop_low_sample[OF run] assms(2-4) m3 rs
  have r0: "r0 = Inl (MemoryError ?msg)" and last: "mem_calls s4 = Suc j" by simp_all
  from assms(1) run r0 have s': "s' = log_add ERROR (Memory_error_encountered (MemoryError ?msg)) s4"
    by (auto simp add: upscale_video_Some[OF v] s3_def[symmetric])
  have c: "c \<noteq> 0"
  proof
    assume "c = 0"
    with run loop_zero_chunk have "mem_calls s4 = mem_calls s3" by blast
    with last m3 assms(2) show False by simp
  qed
  from loop_frames_count[OF run w3 _ c] r0 obtain m where m: "m \<le> length (v_frames v)"
    "written s4 out = Some (w0\<lparr>w_frames := w_frames w0 @ map (\<lambda>f. Resized f res k) (take m (v_frames v))\<rparr>)"
    "int (mem_calls s4) = int (mem_calls s3) + (0 + int m) div \<bar>c\<bar> - 0 div \<bar>c\<bar>"
    "\<bar>c\<bar> dvd (0 + int m)"
    by auto
  from m(4) obtain q where "0 + int m = \<bar>c\<bar> * q" unfolding dvd_def by blast
  then have q: "int m = \<bar>c\<bar> * q" by simp
  with m(3) c have "int (mem_calls s4) = int (mem_calls s3) + q" by simp
  with last m3 assms(2) have "q = int (Suc j - mem_calls s)" by simp
  with q have "int m = int (nat \<bar>c\<bar> * (Suc j - mem_calls s))" by simp
  then have meq: "m = nat \<bar>c\<bar> * (Suc j - mem_calls s)" by linarith
  show ?thesis
    using rs r0 last v m(1,2) s' meq by (simp add: w0_def)
qed

text \<open>The theorem at work: three frames, a check after every second one, memory scarce.\<close>

theorem memory_abort_stops_writing_witness:
  "mem_calls demo_state \<le> 0
   \<and> 0 < mem_calls (snd (upscale_video scarce_env demo_state ''in.mp4'' ''t.mp4'' (6, 6) INTER_CUBIC 2))
   \<and> low_memory (virtual_memory scarce_env 0)
   \<and> fst (upscale_video scarce_env demo_state ''in.mp4'' ''t.mp4'' (6, 6) INTER_CUBIC 2)
       = Inl (MemoryError ''System is running out of memory. Aborting process.'')
   \<and> mem_calls (snd (upscale_video scarce_env demo_state ''in.mp4'' ''t.mp4'' (6, 6) INTER_CUBIC 2)) = 1
   \<and> written (snd (upscale_video scarce_env demo_state ''in.mp4'' ''t.mp4'' (6, 6) INTER_CUBIC 2)) ''t.mp4''
       = Some \<lparr>w_fourcc = ''mp4v'', w_fps = 30, w_size = (6, 6),
               w_frames = [Resized (Decoded 0) (6, 6) INTER_CUBIC, Resized (Decoded 1) (6, 6) INTER_CUBIC],
               w_released = False\<rparr>"
proof -
  let ?X = "upscale_video scarce_env demo_state ''in.mp4'' ''t.mp4'' (6, 6) INTER_CUBIC 2"
  have h1: "?X = (fst ?X, snd ?X)" by simp
  have h2: "mem_calls demo_state \<le> 0" by (simp add: demo_state_def)
  have h3: "0 < mem_calls (snd ?X)" by (simp add: stage_defs world_defs)
  have h4: "low_memory (virtual_memory scarce_env 0)" by (simp add: stage_defs world_defs)
  have v: "videos scarce_env ''in.mp4'' = Some demo_video" by (simp add: world_defs)
  from memory_abort_stops_writing[OF h1 h2 h3 h4] v h2 h3 h4
  show ?thesis by (simp add: demo_video_def demo_state_def)
qed


text \<open>
  Claim C9. For every source video with fewer frames than \<^verbatim>\<open>chunk_size\<close>, the memory
  check is never executed during the resample loop, so such a run is never aborted for
  low memory, whatever the memory samples would report.
\<close>

theorem short_video_never_checked:
  assumes "int (length (v_frames (cv2_VideoCapture e inp))) < c"
  shows "mem_calls (snd (upscale_video e s inp out res k c)) = mem_calls s
       \<and> (\<forall>msg. fst (upscale_video e s inp out res k c) \<noteq> Inl (MemoryError msg))"
proof (cases "videos e inp")
  case None
  then show ?thesis by (simp add: upscale_video_None)
next
  case (Some v)
  define s3 where "s3 = log_add INFO (Upscaling_to res)
               (VideoWriter_open out ''mp4v'' (v_fps v) res
                 (log_add INFO
                   (Original_video (v_width v) (v_height v) (v_fps v) (v_frame_count v)) s))"
  obtain r0 s4 where run: "upscale_video_loop e out res k c (v_frame_count v) (v_frames v) 0 s3 = (r0, s4)"
    by fastforce
  from assms Some have "0 + int (length (v_frames v)) < c" by (simp add: cv2_VideoCapture_def)
  from loop_short[OF run _ this]
  have "mem_calls s4 = mem_calls s3" "\<forall>msg. r0 \<noteq> Inl (MemoryError msg)" by simp_all
  moreover have "mem_calls s3 = mem_calls s" by (simp add: s3_def)
  ultimately show ?thesis
    using run by (auto simp add: upscale_video_Some[OF Some] s3_def[symmetric] split: sum.splits)
qed

text \<open>Three frames against the default chunk size of 100, with memory scarce throughout.\<close>

theorem short_video_never_checked_witness:
  "int (length (v_frames (cv2_VideoCapture scarce_env ''in.mp4''))) < 100
   \<and> mem_calls (snd (upscale_video scarce_env demo_state ''in.mp4'' ''t.mp4'' (6, 6) INTER_CUBIC 100)) = 0
   \<and> fst (upscale_video scarce_env demo_state ''in.mp4'' ''t.mp4'' (6, 6) INTER_CUBIC 100) = Inr ()"
proof -
  have h: "int (length (v_frames (cv2_VideoCapture scarce_env ''in.mp4''))) < 100"
    by (simp add: cv2_VideoCapture_def world_defs)
  have r: "fst (upscale_video scarce_env demo_state ''in.mp4'' ''t.mp4'' (6, 6) INTER_CUBIC 100) = Inr ()"
    by (simp add: stage_defs world_defs)
  from short_video_never_checked[OF h, of demo_state "''t.mp4''" "(6, 6)" INTER_CUBIC] h r
  show ?thesis by (simp add: demo_state_def)
qed

subsection \<open>Frames written by the resample stage\<close>




subsection \<open>Cleanup\<close>

text \<open>
  Claim C10. The cleanup operation never propagates an exception to its caller: for
  every path, whether the file exists or not and whether the removal succeeds or raises,
  \<^verbatim>\<open>cleanup_temp_file\<close> returns normally; a removal error is logged at level \<open>ERROR\<close> and
  the state is otherwise left as it was.
\<close>

theorem cleanup_never_raises:
  "cleanup_temp_file e s p =
     (Inr (),
      if p \<in> files s
      then (case remove_error e p of
              Some err \<Rightarrow> log_add ERROR (Error_during_cleanup err) s
            | None \<Rightarrow> log_add INFO (Temp_file_removed p)
                        (s\<lparr>files := files s - {p}, written := (written s)(p := None)\<rparr>))
      else log_add WARNING (Temp_file_missing p) s)"
  by (simp add: cleanup_temp_file_def cleanup_temp_file_body_def split: option.splits)

subsection \<open>The exit code\<close>

text \<open>
  Claim C6. For every run, the process exits with code 0 when configuration loading,
  logging setup, the kernel lookup, the resample stage and the audio stage all succeed,
  and with code 1 when any of them raises, be it \<^verbatim>\<open>MemoryError\<close> or any other exception.
\<close>

theorem exit_code:
  "fst (main e s) =
     (if \<exists>cfg s1 k s2 s3.
            load_config e ''config.json'' = Inr cfg
          \<and> configure_logging e s (log_dir cfg) = (Inr (), s1)
          \<and> get_interpolation_method (interpolation_method cfg) = Inr k
          \<and> upscale_video e s1 (input_video cfg) (temp_path cfg) (target_resolution cfg) k 100
               = (Inr (), s2)
          \<and> extract_and_add_audio e s2 (input_video cfg) (temp_path cfg) (output_video cfg)
               = (Inr (), s3)
      then 0 else 1)"
  by (auto simp add: main_def main_handler_def Let_def cleanup_temp_file_def
           split: sum.splits prod.splits)


subsection \<open>Cleanup twice\<close>

text \<open>
  Claim C7, as the code has it. When \<^verbatim>\<open>os.remove\<close> does not fail, the cleanup operation
  is idempotent: it returns normally, it removes the intermediate file when it exists and
  only logs a warning when it does not, the file is absent afterwards, and a second call
  right after the first returns normally and changes nothing but the log, to which it
  adds the warning.
\<close>

theorem cleanup_idempotent:
  assumes "remove_error e p = None"
  shows "fst (cleanup_temp_file e s p) = Inr ()
       \<and> p \<notin> files (snd (cleanup_temp_file e s p))
       \<and> snd (cleanup_temp_file e s p) =
           (if p \<in> files s
            then log_add INFO (Temp_file_removed p)
                   (s\<lparr>files := files s - {p}, written := (written s)(p := None)\<rparr>)
            else log_add WARNING (Temp_file_missing p) s)
       \<and> cleanup_temp_file e (snd (cleanup_temp_file e s p)) p =
           (Inr (), log_add WARNING (Temp_file_missing p) (snd (cleanup_temp_file e s p)))"
  using assms by (simp add: cleanup_temp_file_def cleanup_temp_file_body_def)

text \<open>The intermediate file of a fresh writer, cleaned up twice.\<close>

theorem cleanup_idempotent_witness:
  "remove_error demo_env ''t.mp4'' = None
   \<and> ''t.mp4'' \<in> files (VideoWriter_open ''t.mp4'' ''mp4v'' 30 (6, 6) demo_state)
   \<and> fst (cleanup_temp_file demo_env (VideoWriter_open ''t.mp4'' ''mp4v'' 30 (6, 6) demo_state) ''t.mp4'') = Inr ()
   \<and> ''t.mp4'' \<notin> files (snd (cleanup_temp_file demo_env
                               (VideoWriter_open ''t.mp4'' ''mp4v'' 30 (6, 6) demo_state) ''t.mp4''))
   \<and> cleanup_temp_file demo_env
        (snd (cleanup_temp_file demo_env (VideoWriter_open ''t.mp4'' ''mp4v'' 30 (6, 6) demo_state) ''t.mp4''))
        ''t.mp4''
       = (Inr (), log_add WARNING (Temp_file_missing ''t.mp4'')
            (snd (cleanup_temp_file demo_env
                    (VideoWriter_open ''t.mp4'' ''mp4v'' 30 (6, 6) demo_state) ''t.mp4'')))"
proof -
  have h: "remove_error demo_env ''t.mp4'' = None" by (simp add: demo_env_def)
  have f: "''t.mp4'' \<in> files (VideoWriter_open ''t.mp4'' ''mp4v'' 30 (6, 6) demo_state)" by simp
  from cleanup_idempotent[OF h, of "VideoWriter_open ''t.mp4'' ''mp4v'' 30 (6, 6) demo_state"] h f
  show ?thesis by blast
qed

text \<open>
  Claim C7 as stated says that cleanup removes the file whenever it exists. When
  \<^verbatim>\<open>os.remove\<close> raises, the handler logs the error and the file is still there.
\<close>

theorem cleanup_idempotent_counterexample:
  "''t.mp4'' \<in> files (VideoWriter_open ''t.mp4'' ''mp4v'' 30 (6, 6) demo_state)
   \<and> cleanup_temp_file locked_env (VideoWriter_open ''t.mp4'' ''mp4v'' 30 (6, 6) demo_state) ''t.mp4''
       = (Inr (), log_add ERROR (Error_during_cleanup OSError)
                    (VideoWriter_open ''t.mp4'' ''mp4v'' 30 (6, 6) demo_state))
   \<and> ''t.mp4'' \<in> files (snd (cleanup_temp_file locked_env
                               (VideoWriter_open ''t.mp4'' ''mp4v'' 30 (6, 6) demo_state) ''t.mp4''))"
  by (simp add: cleanup_temp_file_def cleanup_temp_file_body_def locked_env_def demo_env_def)

subsection \<open>The life of the intermediate file\<close>




subsection \<open>The target resolution of the scale-factor script\<close>



subsection \<open>An input that cannot be opened\<close>

text \<open>
  \<^verbatim>\<open>upscale_video\<close> tests \<^verbatim>\<open>isOpened\<close> first: with an unopenable input it raises before
  the writer is constructed, and \<^verbatim>\<open>main\<close> exits with 1 without an intermediate file.
\<close>

lemma unopenable_input_fails_first:
  assumes "videos e inp = None"
  shows "fst (upscale_video e s inp out res k c) = Inl (PyException (''Unable to open video file: '' @ inp))"
    and "files (snd (upscale_video e s inp out res k c)) = files s"
    and "written (snd (upscale_video e s inp out res k c)) = written s"
  using assms by (simp_all add: upscale_video_None)

lemma main_unopenable_input:
  assumes "load_config e ''config.json'' = Inr cfg"
      and "configure_logging e s (log_dir cfg) = (Inr (), s1)"
      and "get_interpolation_method (interpolation_method cfg) = Inr k"
      and "videos e (input_video cfg) = None"
  shows "main e s =
           (1, log_add ERROR
                 (Failed_to_complete (PyException (''Unable to open video file: '' @ input_video cfg)))
                 (log_add ERROR
                   (Error_processing_video (PyException (''Unable to open video file: '' @ input_video cfg)))
                   s1))"
  using assms by (simp add: main_def main_handler_def Let_def upscale_video_None)


end
